theory Spec2Isabelle
  imports Complex_Main "HOL-Library.Multiset"
begin

section \<open>The determinant kernel of vnl\_det.h\<close>

text \<open>
  The kernel is a template over the scalar type \<open>T\<close>. The model takes \<open>T\<close> to be any
  commutative ring with unit, with exact arithmetic: the rounding of \<open>float\<close> and
  \<open>double\<close> is outside the model.

  A row pointer \<open>T const *row\<close> is modelled by the list of the elements that can be
  read from the pointer on, so that \<open>row[i]\<close> is \<open>row ! i\<close>. The source does no bounds
  checking; the theorems below speak about rows that are long enough.
\<close>

definition vnl_det2 :: "'a::comm_ring_1 list \<Rightarrow> 'a list \<Rightarrow> 'a" where
  "vnl_det2 row0 row1 = row0 ! 0 * row1 ! 1 - row0 ! 1 * row1 ! 0"

definition vnl_det3 :: "'a::comm_ring_1 list \<Rightarrow> 'a list \<Rightarrow> 'a list \<Rightarrow> 'a" where
  "vnl_det3 row0 row1 row2 =
       row0 ! 0 * row1 ! 1 * row2 ! 2
     - row0 ! 0 * row2 ! 1 * row1 ! 2
     - row1 ! 0 * row0 ! 1 * row2 ! 2
     + row1 ! 0 * row2 ! 1 * row0 ! 2
     + row2 ! 0 * row0 ! 1 * row1 ! 2
     - row2 ! 0 * row1 ! 1 * row0 ! 2"

definition vnl_det4 :: "'a::comm_ring_1 list \<Rightarrow> 'a list \<Rightarrow> 'a list \<Rightarrow> 'a list \<Rightarrow> 'a" where
  "vnl_det4 row0 row1 row2 row3 =
       row0 ! 0 * row1 ! 1 * row2 ! 2 * row3 ! 3
     - row0 ! 0 * row1 ! 1 * row3 ! 2 * row2 ! 3
     - row0 ! 0 * row2 ! 1 * row1 ! 2 * row3 ! 3
     + row0 ! 0 * row2 ! 1 * row3 ! 2 * row1 ! 3
     + row0 ! 0 * row3 ! 1 * row1 ! 2 * row2 ! 3
     - row0 ! 0 * row3 ! 1 * row2 ! 2 * row1 ! 3
     - row1 ! 0 * row0 ! 1 * row2 ! 2 * row3 ! 3
     + row1 ! 0 * row0 ! 1 * row3 ! 2 * row2 ! 3
     + row1 ! 0 * row2 ! 1 * row0 ! 2 * row3 ! 3
     - row1 ! 0 * row2 ! 1 * row3 ! 2 * row0 ! 3
     - row1 ! 0 * row3 ! 1 * row0 ! 2 * row2 ! 3
     + row1 ! 0 * row3 ! 1 * row2 ! 2 * row0 ! 3
     + row2 ! 0 * row0 ! 1 * row1 ! 2 * row3 ! 3
     - row2 ! 0 * row0 ! 1 * row3 ! 2 * row1 ! 3
     - row2 ! 0 * row1 ! 1 * row0 ! 2 * row3 ! 3
     + row2 ! 0 * row1 ! 1 * row3 ! 2 * row0 ! 3
     + row2 ! 0 * row3 ! 1 * row0 ! 2 * row1 ! 3
     - row2 ! 0 * row3 ! 1 * row1 ! 2 * row0 ! 3
     - row3 ! 0 * row0 ! 1 * row1 ! 2 * row2 ! 3
     + row3 ! 0 * row0 ! 1 * row2 ! 2 * row1 ! 3
     + row3 ! 0 * row1 ! 1 * row0 ! 2 * row2 ! 3
     - row3 ! 0 * row1 ! 1 * row2 ! 2 * row0 ! 3
     - row3 ! 0 * row2 ! 1 * row0 ! 2 * row1 ! 3
     + row3 ! 0 * row2 ! 1 * row1 ! 2 * row0 ! 3"

subsection \<open>The fixed-size matrix and its determinant overloads\<close>

text \<open>
  \<open>vnl_matrix_fixed<T, num_rows, num_cols>\<close> derives from a row-major Eigen matrix:
  its storage \<open>data()\<close> is one block of \<open>num_rows * num_cols\<close> elements, row after row.
  The template arguments are fields of the record.
\<close>

record 'a vnl_matrix_fixed =
  num_rows :: nat
  num_cols :: nat
  data :: "'a list"

definition wf_matrix :: "nat \<Rightarrow> nat \<Rightarrow> 'a vnl_matrix_fixed \<Rightarrow> bool" where
  "wf_matrix r c m = (num_rows m = r \<and> num_cols m = c \<and> length (data m) = r * c)"

text \<open>\<open>get(r, c)\<close> without \<open>VNL_CONFIG_CHECK_BOUNDS\<close>: the element \<open>(*this)(r, c)\<close>.\<close>

definition get :: "'a vnl_matrix_fixed \<Rightarrow> nat \<Rightarrow> nat \<Rightarrow> 'a" where
  "get m r c = data m ! (r * num_cols m + c)"

text \<open>
  \<open>operator[](r)\<close> returns \<open>this->row(r).data()\<close>, the address of the first element
  of row \<open>r\<close> inside the storage. \<open>row\<close> and \<open>data\<close> are Eigen's, a library outside
  the repository; for the row-major base class declared in the source that address is
  \<open>data() + r * num_cols\<close>, and everything from that offset on can be read through it.
\<close>

definition row_ptr :: "'a vnl_matrix_fixed \<Rightarrow> nat \<Rightarrow> 'a list" where
  "row_ptr m r = drop (r * num_cols m) (data m)"

definition vnl_det_fixed1 :: "'a::comm_ring_1 vnl_matrix_fixed \<Rightarrow> 'a" where
  "vnl_det_fixed1 m = row_ptr m 0 ! 0"

definition vnl_det_fixed2 :: "'a::comm_ring_1 vnl_matrix_fixed \<Rightarrow> 'a" where
  "vnl_det_fixed2 m = vnl_det2 (row_ptr m 0) (row_ptr m 1)"

definition vnl_det_fixed3 :: "'a::comm_ring_1 vnl_matrix_fixed \<Rightarrow> 'a" where
  "vnl_det_fixed3 m = vnl_det3 (row_ptr m 0) (row_ptr m 1) (row_ptr m 2)"

definition vnl_det_fixed4 :: "'a::comm_ring_1 vnl_matrix_fixed \<Rightarrow> 'a" where
  "vnl_det_fixed4 m = vnl_det4 (row_ptr m 0) (row_ptr m 1) (row_ptr m 2) (row_ptr m 3)"

text \<open>Row \<open>r\<close> of a matrix as a vector of its own, and the matrix as the list of its rows.\<close>

definition row_of :: "'a vnl_matrix_fixed \<Rightarrow> nat \<Rightarrow> 'a list" where
  "row_of m r = map (get m r) [0..<num_cols m]"

definition rows_of :: "'a vnl_matrix_fixed \<Rightarrow> 'a list list" where
  "rows_of m = map (row_of m) [0..<num_rows m]"

subsection \<open>The determinant by cofactor expansion\<close>

text \<open>
  The reference the closed forms are compared with: the expansion of a square matrix,
  given as the list of its rows, along its first row. Entry \<open>j\<close> of the first row is
  multiplied by the sign \<open>(-1)^j\<close> and by the determinant of the minor that remains when
  the first row and column \<open>j\<close> are deleted.
\<close>

definition del_col :: "nat \<Rightarrow> 'a list \<Rightarrow> 'a list" where
  "del_col j r = take j r @ drop (Suc j) r"

function cofactor_det :: "'a::comm_ring_1 list list \<Rightarrow> 'a" where
  "cofactor_det [] = 1"
| "cofactor_det (r # rs) =
     (\<Sum>j\<leftarrow>[0..<length r]. (- 1) ^ j * r ! j * cofactor_det (map (del_col j) rs))"
  by pat_completeness auto
termination
  by (relation "measure length") auto

subsection \<open>Calls of the kernel in a store\<close>





subsection \<open>Example matrices and stores\<close>

definition ex_m1 :: "int vnl_matrix_fixed" where
  "ex_m1 = \<lparr>num_rows = 1, num_cols = 1, data = [7]\<rparr>"

definition ex_m2 :: "int vnl_matrix_fixed" where
  "ex_m2 = \<lparr>num_rows = 2, num_cols = 2, data = [1, 2, 3, 4]\<rparr>"

definition ex_m3 :: "int vnl_matrix_fixed" where
  "ex_m3 = \<lparr>num_rows = 3, num_cols = 3, data = [2, 0, 1, 1, 3, 0, 0, 1, 4]\<rparr>"

definition ex_m4 :: "int vnl_matrix_fixed" where
  "ex_m4 = \<lparr>num_rows = 4, num_cols = 4,
             data = [1, 2, 0, 0, 3, 4, 0, 0, 0, 0, 2, 1, 0, 0, 1, 3]\<rparr>"


section \<open>Orientation, hull builder and polygon\<close>

text \<open>
  The test \<open>test_convex.cpp\<close> calls \<open>vgl_convex_hull\<close> and \<open>vgl_polygon::contains\<close>,
  but \<open>vgl_convex.h\<close>, \<open>vgl_polygon.h\<close> and \<open>vgl_point_2d.h\<close> are not among the
  sources. The definitions of this section are written from the specification; each
  one says so. Coordinates are real numbers, as the specification has them.
\<close>

text \<open>Modelled from the spec: the Point of the data model, a pair of real coordinates
  (the class \<open>vgl_point_2d\<close> is missing from the sources).\<close>

datatype point = Point (px: real) (py: real)

text \<open>Modelled from the spec: the derived predicate \<open>orientation(a, b, c)\<close>, the sign of
  the 2x2 determinant of the vectors \<open>b - a\<close> and \<open>c - a\<close> (the function is missing from
  the sources; the determinant is the one of \<open>vnl_det.h\<close>).\<close>

definition orientation :: "point \<Rightarrow> point \<Rightarrow> point \<Rightarrow> real" where
  "orientation a b c =
     sgn (vnl_det2 [px b - px a, py b - py a] [px c - px a, py c - py a])"

subsection \<open>Hull builder\<close>

text \<open>Modelled from the spec: the order of step 1 of the hull builder, x ascending with
  ties broken by y ascending (the comparison is missing from the sources).\<close>

definition point_le :: "point \<Rightarrow> point \<Rightarrow> bool" where
  "point_le p q = (px p < px q \<or> (px p = px q \<and> py p \<le> py q))"

text \<open>Modelled from the spec: one insertion into a list sorted by \<open>point_le\<close>; the
  specification fixes the order, not the sorting algorithm (missing from the sources).\<close>

fun insert_point :: "point \<Rightarrow> point list \<Rightarrow> point list" where
  "insert_point p [] = [p]"
| "insert_point p (q # qs) =
     (if point_le p q then p # q # qs else q # insert_point p qs)"

text \<open>Modelled from the spec: step 1, the sorted copy of the input (missing from the
  sources).\<close>

fun sort_points :: "point list \<Rightarrow> point list" where
  "sort_points [] = []"
| "sort_points (p # ps) = insert_point p (sort_points ps)"

text \<open>Modelled from the spec: the pop rule of steps 2 and 3 (missing from the sources).
  The stack is a list with its top first: while it holds two points \<open>s\<close>, \<open>t\<close> (top) that
  do not make a strict left turn with the candidate \<open>c\<close> (\<open>orientation \<le> 0\<close>), the top
  is popped.\<close>

fun pop_turns :: "point \<Rightarrow> point list \<Rightarrow> point list" where
  "pop_turns c (t # s # st) =
     (if orientation s t c \<le> 0 then pop_turns c (s # st) else t # s # st)"
| "pop_turns c st = st"

text \<open>Modelled from the spec: the scan of steps 2 and 3 over the remaining points: pop,
  then append the candidate (missing from the sources).\<close>

fun scan :: "point list \<Rightarrow> point list \<Rightarrow> point list" where
  "scan st [] = st"
| "scan st (c # cs) = scan (c # pop_turns c st) cs"

text \<open>Modelled from the spec: a chain, the stack after the scan, read from its bottom to
  its top (missing from the sources).\<close>

definition build_chain :: "point list \<Rightarrow> point list" where
  "build_chain ps = rev (scan [] ps)"

text \<open>Modelled from the spec: the failure of the hull builder. The specification says
  that there is none; the one step of the algorithm that is not defined on every value,
  removing the last point of a chain that has no point, is given an error result here,
  so that the absence of failure is a property of the algorithm.\<close>

datatype hull_error = EmptyChain

text \<open>Modelled from the spec: "excluding its last point" of step 4 (missing from the
  sources).\<close>

definition drop_last :: "point list \<Rightarrow> hull_error + point list" where
  "drop_last ch = (if ch = [] then Inl EmptyChain else Inr (butlast ch))"

text \<open>Modelled from the spec: the Polygon of the data model, an ordered ring of
  vertices, the last one connected to the first (the class \<open>vgl_polygon\<close> is missing
  from the sources).\<close>

datatype polygon = Polygon (vertices: "point list")

text \<open>Modelled from the spec: \<open>convex_hull\<close>, steps 1 to 5 of section 4.2
  (\<open>vgl_convex_hull\<close> is missing from the sources). The degenerate sizes of step 5 that
  steps 2 to 4 do not produce by themselves are decided after the sort: no point gives
  the empty polygon, and points whose coordinates are all equal give one vertex.
  Otherwise the lower chain is built from the sorted points, the upper chain from the
  sorted points right to left, and the ring is the lower chain without its last point
  followed by the upper chain without its last point.\<close>

definition convex_hull :: "point list \<Rightarrow> hull_error + polygon" where
  "convex_hull points =
     (let sorted = sort_points points in
      if sorted = [] then Inr (Polygon [])
      else if list_all (\<lambda>p. p = hd sorted) sorted then Inr (Polygon [hd sorted])
      else
        case drop_last (build_chain sorted) of
          Inl e \<Rightarrow> Inl e
        | Inr lower \<Rightarrow>
            (case drop_last (build_chain (rev sorted)) of
               Inl e \<Rightarrow> Inl e
             | Inr upper \<Rightarrow> Inr (Polygon (lower @ upper))))"

subsection \<open>Polygon\<close>

text \<open>Modelled from the spec: the edges of the closed ring, each vertex with its
  successor and the last vertex with the first (missing from the sources).\<close>

definition ring_edges :: "point list \<Rightarrow> (point \<times> point) list" where
  "ring_edges vs = (case vs of [] \<Rightarrow> [] | v # _ \<Rightarrow> zip vs (tl vs @ [v]))"

text \<open>Modelled from the spec: the on-boundary check of section 4.3 for one edge,
  collinearity together with the coordinate-range test (missing from the sources).\<close>

definition on_segment :: "point \<Rightarrow> point \<Rightarrow> point \<Rightarrow> bool" where
  "on_segment a b p =
     (orientation a b p = 0
      \<and> min (px a) (px b) \<le> px p \<and> px p \<le> max (px a) (px b)
      \<and> min (py a) (py b) \<le> py p \<and> py p \<le> max (py a) (py b))"

text \<open>Modelled from the spec: the crossing test of section 4.3 for one edge, with exact
  comparisons: the ray from \<open>p\<close> in the direction of growing x crosses the edge
  (missing from the sources).\<close>

definition crosses :: "point \<Rightarrow> point \<times> point \<Rightarrow> bool" where
  "crosses p e =
     (case e of (a, b) \<Rightarrow>
        ((py a \<le> py p \<and> py p < py b) \<or> (py b \<le> py p \<and> py p < py a))
        \<and> px p < (px b - px a) * (py p - py a) / (py b - py a) + px a)"

text \<open>Modelled from the spec: \<open>Polygon.contains\<close>, the on-boundary check over all
  edges first, then the parity of the crossing count (\<open>vgl_polygon::contains\<close> is
  missing from the sources).\<close>

definition contains :: "polygon \<Rightarrow> point \<Rightarrow> bool" where
  "contains poly p =
     (let es = ring_edges (vertices poly) in
      if list_ex (\<lambda>e. on_segment (fst e) (snd e) p) es then True
      else odd (length (filter (crosses p) es)))"

text \<open>Modelled from the spec: the rotational order of a ring, the sign of twice its
  signed area by the shoelace formula: \<open>1\<close> is counter-clockwise, \<open>- 1\<close> clockwise and
  \<open>0\<close> a ring without area (missing from the sources).\<close>

definition ring_area2 :: "point list \<Rightarrow> real" where
  "ring_area2 vs = (\<Sum>e\<leftarrow>ring_edges vs. vnl_det2 [px (fst e), py (fst e)] [px (snd e), py (snd e)])"

definition ring_orientation :: "polygon \<Rightarrow> real" where
  "ring_orientation poly = sgn (ring_area2 (vertices poly))"

subsection \<open>Turns and collinearity\<close>





subsection \<open>The input of the test\<close>

definition test_points :: "point list" where
  "test_points = [Point 0 0, Point 0 0, Point 5 0, Point 3 1, Point 2 1, Point 0 5]"

section \<open>Properties of the determinant kernel\<close>

subsection \<open>Reading rows\<close>

lemma upt_2: "[0..<2] = [0, 1]"
  and upt_3: "[0..<3] = [0, 1, 2]"
  and upt_4: "[0..<4] = [0, 1, 2, 3]"
  by (simp_all add: upt_rec)

text \<open>Each closed form reads only the first entries of its rows.\<close>

lemma vnl_det2_reads:
  assumes "\<And>i. i < 2 \<Longrightarrow> r0 ! i = s0 ! i" and "\<And>i. i < 2 \<Longrightarrow> r1 ! i = s1 ! i"
  shows "vnl_det2 r0 r1 = vnl_det2 s0 s1"
proof -
  have "r0 ! 0 = s0 ! 0" "r0 ! 1 = s0 ! 1" "r1 ! 0 = s1 ! 0" "r1 ! 1 = s1 ! 1"
    by (simp_all add: assms)
  then show ?thesis unfolding vnl_det2_def by (simp only:)
qed

lemma vnl_det3_reads:
  assumes "\<And>i. i < 3 \<Longrightarrow> r0 ! i = s0 ! i" and "\<And>i. i < 3 \<Longrightarrow> r1 ! i = s1 ! i"
    and "\<And>i. i < 3 \<Longrightarrow> r2 ! i = s2 ! i"
  shows "vnl_det3 r0 r1 r2 = vnl_det3 s0 s1 s2"
proof -
  have "r0 ! 0 = s0 ! 0" "r0 ! 1 = s0 ! 1" "r0 ! 2 = s0 ! 2"
       "r1 ! 0 = s1 ! 0" "r1 ! 1 = s1 ! 1" "r1 ! 2 = s1 ! 2"
       "r2 ! 0 = s2 ! 0" "r2 ! 1 = s2 ! 1" "r2 ! 2 = s2 ! 2"
    by (simp_all add: assms)
  then show ?thesis unfolding vnl_det3_def by (simp only:)
qed

lemma vnl_det4_reads:
  assumes "\<And>i. i < 4 \<Longrightarrow> r0 ! i = s0 ! i" and "\<And>i. i < 4 \<Longrightarrow> r1 ! i = s1 ! i"
    and "\<And>i. i < 4 \<Longrightarrow> r2 ! i = s2 ! i" and "\<And>i. i < 4 \<Longrightarrow> r3 ! i = s3 ! i"
  shows "vnl_det4 r0 r1 r2 r3 = vnl_det4 s0 s1 s2 s3"
proof -
  have "r0 ! 0 = s0 ! 0" "r0 ! 1 = s0 ! 1" "r0 ! 2 = s0 ! 2" "r0 ! 3 = s0 ! 3"
       "r1 ! 0 = s1 ! 0" "r1 ! 1 = s1 ! 1" "r1 ! 2 = s1 ! 2" "r1 ! 3 = s1 ! 3"
       "r2 ! 0 = s2 ! 0" "r2 ! 1 = s2 ! 1" "r2 ! 2 = s2 ! 2" "r2 ! 3 = s2 ! 3"
       "r3 ! 0 = s3 ! 0" "r3 ! 1 = s3 ! 1" "r3 ! 2 = s3 ! 2" "r3 ! 3 = s3 ! 3"
    by (simp_all add: assms)
  then show ?thesis unfolding vnl_det4_def by (simp only:)
qed


subsection \<open>Row pointers of a fixed matrix\<close>

lemma row_ptr_nth:
  assumes wf: "wf_matrix R C m" and r: "r < R" and c: "c < C"
  shows "row_ptr m r ! c = get m r c"
proof -
  have "r * C \<le> R * C" using r by simp
  then have "r * num_cols m \<le> length (data m)" using wf by (simp add: wf_matrix_def)
  then show ?thesis by (simp add: row_ptr_def get_def)
qed

lemma row_of_nth: "c < num_cols m \<Longrightarrow> row_of m r ! c = get m r c"
  by (simp add: row_of_def)

lemma rows_of_2:
  "wf_matrix 2 2 m \<Longrightarrow> rows_of m = [[get m 0 0, get m 0 1], [get m 1 0, get m 1 1]]"
  by (simp add: rows_of_def row_of_def wf_matrix_def upt_2)

lemma rows_of_3:
  "wf_matrix 3 3 m \<Longrightarrow>
   rows_of m = [[get m 0 0, get m 0 1, get m 0 2],
                [get m 1 0, get m 1 1, get m 1 2],
                [get m 2 0, get m 2 1, get m 2 2]]"
  by (simp add: rows_of_def row_of_def wf_matrix_def upt_3)

lemma rows_of_4:
  "wf_matrix 4 4 m \<Longrightarrow>
   rows_of m = [[get m 0 0, get m 0 1, get m 0 2, get m 0 3],
                [get m 1 0, get m 1 1, get m 1 2, get m 1 3],
                [get m 2 0, get m 2 1, get m 2 2, get m 2 3],
                [get m 3 0, get m 3 1, get m 3 2, get m 3 3]]"
  by (simp add: rows_of_def row_of_def wf_matrix_def upt_4)

lemma fixed2_rows:
  assumes "wf_matrix 2 2 m"
  shows "vnl_det_fixed2 m = vnl_det2 (row_of m 0) (row_of m 1)"
  unfolding vnl_det_fixed2_def
proof (rule vnl_det2_reads)
  fix i :: nat assume "i < 2"
  then show "row_ptr m 0 ! i = row_of m 0 ! i" "row_ptr m 1 ! i = row_of m 1 ! i"
    using assms row_ptr_nth[OF assms, of _ i] by (simp_all add: row_of_nth wf_matrix_def)
qed

lemma fixed3_rows:
  assumes "wf_matrix 3 3 m"
  shows "vnl_det_fixed3 m = vnl_det3 (row_of m 0) (row_of m 1) (row_of m 2)"
  unfolding vnl_det_fixed3_def
proof (rule vnl_det3_reads)
  fix i :: nat assume "i < 3"
  then show "row_ptr m 0 ! i = row_of m 0 ! i" "row_ptr m 1 ! i = row_of m 1 ! i"
    "row_ptr m 2 ! i = row_of m 2 ! i"
    using assms row_ptr_nth[OF assms, of _ i] by (simp_all add: row_of_nth wf_matrix_def)
qed

lemma fixed4_rows:
  assumes "wf_matrix 4 4 m"
  shows "vnl_det_fixed4 m = vnl_det4 (row_of m 0) (row_of m 1) (row_of m 2) (row_of m 3)"
  unfolding vnl_det_fixed4_def
proof (rule vnl_det4_reads)
  fix i :: nat assume "i < 4"
  then show "row_ptr m 0 ! i = row_of m 0 ! i" "row_ptr m 1 ! i = row_of m 1 ! i"
    "row_ptr m 2 ! i = row_of m 2 ! i" "row_ptr m 3 ! i = row_of m 3 ! i"
    using assms row_ptr_nth[OF assms, of _ i] by (simp_all add: row_of_nth wf_matrix_def)
qed

subsection \<open>The closed forms are the cofactor expansion\<close>

lemma cofactor_det_2:
  "cofactor_det [[a0, a1], [b0, b1]] = vnl_det2 [a0, a1] [b0, b1]"
  by (simp add: del_col_def upt_2 vnl_det2_def algebra_simps)

lemma cofactor_det_3:
  "cofactor_det [[a0, a1, a2], [b0, b1, b2], [c0, c1, c2]] =
   vnl_det3 [a0, a1, a2] [b0, b1, b2] [c0, c1, c2]"
  by (simp add: del_col_def upt_2 upt_3 vnl_det3_def algebra_simps)

lemma cofactor_det_4:
  "cofactor_det [[a0, a1, a2, a3], [b0, b1, b2, b3], [c0, c1, c2, c3], [d0, d1, d2, d3]] =
   vnl_det4 [a0, a1, a2, a3] [b0, b1, b2, b3] [c0, c1, c2, c3] [d0, d1, d2, d3]"
  by (simp add: del_col_def upt_2 upt_3 upt_4 vnl_det4_def algebra_simps)

lemma fixed2_cofactor:
  assumes "wf_matrix 2 2 m" shows "vnl_det_fixed2 m = cofactor_det (rows_of m)"
proof -
  have "row_of m 0 = [get m 0 0, get m 0 1]" "row_of m 1 = [get m 1 0, get m 1 1]"
    using assms by (simp_all add: row_of_def wf_matrix_def upt_2)
  then show ?thesis
    using fixed2_rows[OF assms] by (simp only: rows_of_2[OF assms] cofactor_det_2)
qed

lemma fixed3_cofactor:
  assumes "wf_matrix 3 3 m" shows "vnl_det_fixed3 m = cofactor_det (rows_of m)"
proof -
  have "row_of m 0 = [get m 0 0, get m 0 1, get m 0 2]"
    "row_of m 1 = [get m 1 0, get m 1 1, get m 1 2]"
    "row_of m 2 = [get m 2 0, get m 2 1, get m 2 2]"
    using assms by (simp_all add: row_of_def wf_matrix_def upt_3)
  then show ?thesis
    using fixed3_rows[OF assms] by (simp only: rows_of_3[OF assms] cofactor_det_3)
qed

lemma fixed4_cofactor:
  assumes "wf_matrix 4 4 m" shows "vnl_det_fixed4 m = cofactor_det (rows_of m)"
proof -
  have "row_of m 0 = [get m 0 0, get m 0 1, get m 0 2, get m 0 3]"
    "row_of m 1 = [get m 1 0, get m 1 1, get m 1 2, get m 1 3]"
    "row_of m 2 = [get m 2 0, get m 2 1, get m 2 2, get m 2 3]"
    "row_of m 3 = [get m 3 0, get m 3 1, get m 3 2, get m 3 3]"
    using assms by (simp_all add: row_of_def wf_matrix_def upt_4)
  then show ?thesis
    using fixed4_rows[OF assms] by (simp only: rows_of_4[OF assms] cofactor_det_4)
qed

subsection \<open>Values of the examples\<close>

lemma ex_wf:
  "wf_matrix 1 1 ex_m1" "wf_matrix 2 2 ex_m2" "wf_matrix 3 3 ex_m3" "wf_matrix 4 4 ex_m4"
  by (simp_all add: wf_matrix_def ex_m1_def ex_m2_def ex_m3_def ex_m4_def)

lemma ex_vals:
  "vnl_det_fixed2 ex_m2 = - 2" "vnl_det_fixed3 ex_m3 = 25" "vnl_det_fixed4 ex_m4 = - 10"
  by (simp_all add: vnl_det_fixed2_def vnl_det_fixed3_def vnl_det_fixed4_def
      vnl_det2_def vnl_det3_def vnl_det4_def row_ptr_def ex_m2_def ex_m3_def ex_m4_def)

subsection \<open>Claims about the kernel\<close>

text \<open>
  Claim C1. For every two rows \<open>r0 = [x0, y0]\<close> and \<open>r1 = [x1, y1]\<close> of length two, the
  2x2 primitive returns exactly \<open>r0[0] * r1[1] - r0[1] * r1[0]\<close>.
\<close>

theorem vnl_det2_formula:
  "vnl_det2 [x0, y0] [x1, y1] = x0 * y1 - y0 * x1"
  by (simp add: vnl_det2_def)

text \<open>
  Claim C2. For every three rows of length three, the 3x3 primitive returns the
  determinant of the matrix they form: the cofactor expansion along the first row, which
  is the sum of six signed products; on the rows of the identity matrix it returns 1.
\<close>

theorem vnl_det3_cofactor:
  "vnl_det3 [a0, a1, a2] [b0, b1, b2] [c0, c1, c2] =
     cofactor_det [[a0, a1, a2], [b0, b1, b2], [c0, c1, c2]]
   \<and> vnl_det3 [a0, a1, a2] [b0, b1, b2] [c0, c1, c2] =
     a0 * (b1 * c2 - c1 * b2) - a1 * (b0 * c2 - c0 * b2) + a2 * (b0 * c1 - c0 * b1)
   \<and> vnl_det3 [a0, a1, a2] [b0, b1, b2] [c0, c1, c2] =
     a0 * b1 * c2 - a0 * c1 * b2 - b0 * a1 * c2 + b0 * c1 * a2 + c0 * a1 * b2 - c0 * b1 * a2
   \<and> vnl_det3 [1, 0, 0] [0, 1, 0] [0, 0, 1] = (1::'a::comm_ring_1)"
proof -
  have "vnl_det3 [a0, a1, a2] [b0, b1, b2] [c0, c1, c2] =
     a0 * (b1 * c2 - c1 * b2) - a1 * (b0 * c2 - c0 * b2) + a2 * (b0 * c1 - c0 * b1)"
    by (simp add: vnl_det3_def algebra_simps)
  moreover have "vnl_det3 [a0, a1, a2] [b0, b1, b2] [c0, c1, c2] =
     a0 * b1 * c2 - a0 * c1 * b2 - b0 * a1 * c2 + b0 * c1 * a2 + c0 * a1 * b2 - c0 * b1 * a2"
    by (simp add: vnl_det3_def)
  moreover have "vnl_det3 [1, 0, 0] [0, 1, 0] [0, 0, 1] = (1::'a)"
    by (simp add: vnl_det3_def)
  ultimately show ?thesis by (simp only: cofactor_det_3 simp_thms)
qed

text \<open>
  Claim C7. The 2x2 primitive is antisymmetric under the swap of its rows:
  \<open>det2(a, b) = - det2(b, a)\<close> for all rows of length two; \<open>det2([1,0],[0,1]) = 1\<close> and
  \<open>det2([0,1],[1,0]) = - 1\<close>.
\<close>

theorem vnl_det2_antisym:
  "vnl_det2 [a0, a1] [b0, b1] = - vnl_det2 [b0, b1] [a0, a1]
   \<and> vnl_det2 [1, 0] [0, 1] = (1::'a::comm_ring_1)
   \<and> vnl_det2 [0, 1] [1, 0] = (- 1::'a::comm_ring_1)"
  by (simp add: vnl_det2_def algebra_simps)

text \<open>
  Claim C8. The overloads on fixed matrices agree with the row-pointer primitives: for
  every 2x2, 3x3 and 4x4 matrix, \<open>vnl_det(m)\<close> is the row-pointer determinant of the rows
  of \<open>m\<close> in order, and it is the cofactor expansion of \<open>m\<close>.
\<close>

theorem vnl_det_fixed_rows:
  "(wf_matrix 2 2 m2 \<longrightarrow>
      vnl_det_fixed2 m2 = vnl_det2 (row_of m2 0) (row_of m2 1)
    \<and> vnl_det_fixed2 m2 = cofactor_det (rows_of m2))
 \<and> (wf_matrix 3 3 m3 \<longrightarrow>
      vnl_det_fixed3 m3 = vnl_det3 (row_of m3 0) (row_of m3 1) (row_of m3 2)
    \<and> vnl_det_fixed3 m3 = cofactor_det (rows_of m3))
 \<and> (wf_matrix 4 4 m4 \<longrightarrow>
      vnl_det_fixed4 m4 = vnl_det4 (row_of m4 0) (row_of m4 1) (row_of m4 2) (row_of m4 3)
    \<and> vnl_det_fixed4 m4 = cofactor_det (rows_of m4))"
  using fixed2_rows fixed2_cofactor fixed3_rows fixed3_cofactor fixed4_rows fixed4_cofactor
  by blast

theorem vnl_det_fixed_rows_witness:
  "wf_matrix 2 2 ex_m2 \<and> wf_matrix 3 3 ex_m3 \<and> wf_matrix 4 4 ex_m4
   \<and> vnl_det_fixed2 ex_m2 = - 2 \<and> vnl_det2 (row_of ex_m2 0) (row_of ex_m2 1) = - 2
   \<and> cofactor_det (rows_of ex_m2) = - 2
   \<and> vnl_det_fixed3 ex_m3 = 25
   \<and> vnl_det3 (row_of ex_m3 0) (row_of ex_m3 1) (row_of ex_m3 2) = 25
   \<and> cofactor_det (rows_of ex_m3) = 25
   \<and> vnl_det_fixed4 ex_m4 = - 10
   \<and> vnl_det4 (row_of ex_m4 0) (row_of ex_m4 1) (row_of ex_m4 2) (row_of ex_m4 3) = - 10
   \<and> cofactor_det (rows_of ex_m4) = - 10"
  using vnl_det_fixed_rows[of ex_m2 ex_m3 ex_m4] ex_wf ex_vals by simp



text \<open>
  Claim C10. There is an overload for 1x1 matrices; for every 1x1 matrix \<open>m\<close> it
  returns the single element \<open>m[0][0]\<close> of \<open>m\<close>.
\<close>

theorem vnl_det_fixed1_elem:
  "wf_matrix 1 1 m \<Longrightarrow> vnl_det_fixed1 m = get m 0 0 \<and> data m = [vnl_det_fixed1 m]"
proof -
  assume wf: "wf_matrix 1 1 m"
  then have "length (data m) = 1" by (simp add: wf_matrix_def)
  then obtain a where a: "data m = [a]" by (cases "data m") auto
  then show ?thesis by (simp add: vnl_det_fixed1_def row_ptr_def get_def)
qed

theorem vnl_det_fixed1_elem_witness:
  "wf_matrix 1 1 ex_m1 \<and> vnl_det_fixed1 ex_m1 = 7 \<and> get ex_m1 0 0 = 7 \<and> data ex_m1 = [7]"
  using vnl_det_fixed1_elem[of ex_m1] by (simp add: wf_matrix_def ex_m1_def)

section \<open>Properties of orientation, hull builder and polygon\<close>

subsection \<open>The sign of the orientation\<close>











subsection \<open>The hull builder returns\<close>

lemma scan_nonempty: "st \<noteq> [] \<or> ps \<noteq> [] \<Longrightarrow> scan st ps \<noteq> []"
  by (induction ps arbitrary: st) auto

lemma build_chain_nonempty: "ps \<noteq> [] \<Longrightarrow> build_chain ps \<noteq> []"
  by (simp add: build_chain_def scan_nonempty)

lemma drop_last_chain: "ps \<noteq> [] \<Longrightarrow> drop_last (build_chain ps) = Inr (butlast (build_chain ps))"
  by (simp add: drop_last_def build_chain_nonempty)

lemma convex_hull_sorted:
  "convex_hull points =
     (if sort_points points = [] then Inr (Polygon [])
      else if list_all (\<lambda>p. p = hd (sort_points points)) (sort_points points)
           then Inr (Polygon [hd (sort_points points)])
      else Inr (Polygon (butlast (build_chain (sort_points points))
                         @ butlast (build_chain (rev (sort_points points))))))"
  by (simp add: convex_hull_def Let_def drop_last_chain)

lemma convex_hull_Inr: "\<exists>poly. convex_hull points = Inr poly"
  by (simp add: convex_hull_sorted)

lemma orientation_Point:
  "orientation (Point ax ay) (Point bx by) (Point cx cy) =
     sgn ((bx - ax) * (cy - ay) - (by - ay) * (cx - ax))"
  by (simp add: orientation_def vnl_det2_def)


subsection \<open>The hull of the test input\<close>

lemma sort_test_points:
  "sort_points test_points =
     [Point 0 0, Point 0 0, Point 0 5, Point 2 1, Point 3 1, Point 5 0]"
  by (simp add: test_points_def point_le_def)

lemma lower_test_points:
  "build_chain [Point 0 0, Point 0 0, Point 0 5, Point 2 1, Point 3 1, Point 5 0] =
     [Point 0 0, Point 5 0]"
  by (simp add: build_chain_def orientation_Point)

lemma upper_test_points:
  "build_chain (rev [Point 0 0, Point 0 0, Point 0 5, Point 2 1, Point 3 1, Point 5 0]) =
     [Point 5 0, Point 0 5, Point 0 0]"
  by (simp add: build_chain_def orientation_Point)

lemma hull_test_points:
  "convex_hull test_points = Inr (Polygon [Point 0 0, Point 5 0, Point 0 5])"
  unfolding convex_hull_def sort_test_points Let_def
  by (simp add: lower_test_points upper_test_points drop_last_def del: rev.simps)

lemma contains_test_points:
  "contains (Polygon [Point 0 0, Point 5 0, Point 0 5]) (Point 0 0)"
  "contains (Polygon [Point 0 0, Point 5 0, Point 0 5]) (Point 5 0)"
  "contains (Polygon [Point 0 0, Point 5 0, Point 0 5]) (Point 3 1)"
  "contains (Polygon [Point 0 0, Point 5 0, Point 0 5]) (Point 2 1)"
  "contains (Polygon [Point 0 0, Point 5 0, Point 0 5]) (Point 0 5)"
  by (simp_all add: contains_def ring_edges_def on_segment_def orientation_Point crosses_def)

text \<open>
  Claim C4. For the points \<open>(0,0), (0,0), (5,0), (3,1), (2,1), (0,5)\<close> the hull builder
  returns a polygon that has neither \<open>(3,1)\<close> nor \<open>(2,1)\<close> among its vertices and that
  contains each of \<open>(0,0)\<close>, \<open>(5,0)\<close>, \<open>(3,1)\<close>, \<open>(2,1)\<close> and \<open>(0,5)\<close>.
\<close>

theorem convex_hull_test_scenario:
  "\<exists>poly. convex_hull [Point 0 0, Point 0 0, Point 5 0, Point 3 1, Point 2 1, Point 0 5]
            = Inr poly
     \<and> vertices poly = [Point 0 0, Point 5 0, Point 0 5]
     \<and> Point 3 1 \<notin> set (vertices poly) \<and> Point 2 1 \<notin> set (vertices poly)
     \<and> contains poly (Point 0 0) \<and> contains poly (Point 5 0)
     \<and> contains poly (Point 3 1) \<and> contains poly (Point 2 1)
     \<and> contains poly (Point 0 5)"
  using hull_test_points contains_test_points by (simp add: test_points_def)

subsection \<open>The order of the input\<close>

lemma point_le_total: "point_le p q \<or> point_le q p"
  by (auto simp: point_le_def)

lemma point_le_trans: "point_le p q \<Longrightarrow> point_le q r \<Longrightarrow> point_le p r"
  by (auto simp: point_le_def)

lemma point_le_antisym: "point_le p q \<Longrightarrow> point_le q p \<Longrightarrow> p = q"
  by (auto simp: point_le_def intro: point.expand)

lemma set_insert_point: "set (insert_point p ps) = insert p (set ps)"
  by (induction ps) auto

lemma mset_insert_point: "mset (insert_point p ps) = add_mset p (mset ps)"
  by (induction ps) auto

lemma mset_sort_points: "mset (sort_points ps) = mset ps"
  by (induction ps) (auto simp: mset_insert_point)

lemma sorted_insert_point:
  "sorted_wrt point_le ps \<Longrightarrow> sorted_wrt point_le (insert_point p ps)"
proof (induction ps)
  case Nil
  then show ?case by simp
next
  case (Cons q qs)
  from Cons.prems have q: "\<forall>x\<in>set qs. point_le q x" and qs: "sorted_wrt point_le qs"
    by simp_all
  show ?case
  proof (cases "point_le p q")
    case True
    have "\<forall>x\<in>set qs. point_le p x" using q point_le_trans[OF True] by blast
    then show ?thesis using True Cons.prems by simp
  next
    case False
    then have "point_le q p" using point_le_total by blast
    then have "\<forall>x\<in>set (insert_point p qs). point_le q x"
      using q by (simp add: set_insert_point)
    then show ?thesis using False Cons.IH[OF qs] by simp
  qed
qed

lemma sorted_sort_points: "sorted_wrt point_le (sort_points ps)"
  by (induction ps) (auto simp: sorted_insert_point)



lemma sorted_unique:
  "sorted_wrt point_le xs \<Longrightarrow> sorted_wrt point_le ys \<Longrightarrow> mset xs = mset ys \<Longrightarrow> xs = ys"
proof (induction xs arbitrary: ys)
  case Nil
  then show ?case by simp
next
  case (Cons x xs)
  from Cons.prems(3) have "ys \<noteq> []" by auto
  then obtain y ys' where ys: "ys = y # ys'" by (cases ys) simp_all
  from Cons.prems(1) have hx: "\<forall>z\<in>set xs. point_le x z" and sx: "sorted_wrt point_le xs"
    by simp_all
  from Cons.prems(2) ys have hy: "\<forall>z\<in>set ys'. point_le y z" and sy: "sorted_wrt point_le ys'"
    by simp_all
  have e: "mset (x # xs) = mset (y # ys')" using Cons.prems(3) unfolding ys .
  then have "set (x # xs) = set (y # ys')" by (rule mset_eq_setD)
  then have m: "x = y \<or> x \<in> set ys'" "y = x \<or> y \<in> set xs" by auto
  have xy: "x = y"
  proof (cases "x = y")
    case True
    then show ?thesis .
  next
    case False
    with m have "x \<in> set ys'" "y \<in> set xs" by simp_all
    with hx hy have "point_le y x" "point_le x y" by simp_all
    then show ?thesis by (rule point_le_antisym[rotated])
  qed
  from e xy have "mset xs = mset ys'" by simp
  with sx sy have "xs = ys'" by (rule Cons.IH)
  with xy ys show ?case by simp
qed

lemma sort_points_perm: "mset ps' = mset ps \<Longrightarrow> sort_points ps' = sort_points ps"
  by (rule sorted_unique) (simp_all add: sorted_sort_points mset_sort_points)

lemma convex_hull_perm:
  assumes "mset ps' = mset ps"
  shows "convex_hull ps' = convex_hull ps"
  unfolding convex_hull_def sort_points_perm[OF assms] by (rule refl)

text \<open>
  Claim C6. For every sequence of points \<open>P\<close> and every permutation \<open>P'\<close> of it, the
  hull of \<open>P'\<close> has the same set of vertices and the same rotational orientation as the
  hull of \<open>P\<close>.
\<close>

theorem convex_hull_order_invariant:
  "mset ps' = mset ps \<Longrightarrow>
     \<exists>h h'. convex_hull ps = Inr h \<and> convex_hull ps' = Inr h'
       \<and> set (vertices h') = set (vertices h)
       \<and> ring_orientation h' = ring_orientation h"
proof -
  assume "mset ps' = mset ps"
  then have e: "convex_hull ps' = convex_hull ps" by (rule convex_hull_perm)
  obtain h where "convex_hull ps = Inr h" using convex_hull_Inr by blast
  then show ?thesis using e by simp
qed

theorem convex_hull_order_invariant_witness:
  "mset (rev test_points) = mset test_points
   \<and> (\<exists>h h'. convex_hull test_points = Inr h \<and> convex_hull (rev test_points) = Inr h'
       \<and> set (vertices h') = set (vertices h)
       \<and> ring_orientation h' = ring_orientation h)"
  using convex_hull_order_invariant[of "rev test_points" test_points] by simp

end
